theory Spec2Isabelle
  imports Complex_Main "HOL-Library.Sublist"
begin

section \<open>Python values and exceptions\<close>

text \<open>
  The exceptions the modelled code can raise. All of them are subclasses of Python's
  \<open>Exception\<close> except \<open>KeyboardInterrupt\<close>, which derives from \<open>BaseException\<close> only and
  is therefore not caught by an \<open>except Exception\<close> clause. \<open>BackendError\<close> stands for
  any exception raised inside a vendor SDK (import failure, transport error, timeout).
\<close>

datatype error =
    KeyError string
  | IndexError
  | TypeError
  | AttributeError
  | ValueError
  | JSONDecodeError
  | BackendError string
  | KeyboardInterrupt

fun isinstance_Exception :: "error \<Rightarrow> bool" where
  "isinstance_Exception KeyboardInterrupt = False"
| "isinstance_Exception _ = True"

text \<open>
  Truthiness of the result of \<open>d.get(key)\<close> for a string- or list-valued key: an absent
  key gives \<open>None\<close>, which is falsy, and so is the empty string and the empty list.
\<close>

definition truthy :: "'a list option \<Rightarrow> bool" where
  "truthy v = (case v of None \<Rightarrow> False | Some xs \<Rightarrow> xs \<noteq> [])"

text \<open>The value of \<open>d.get(key)\<close> where it is truthy.\<close>

definition get_truthy :: "'a list option \<Rightarrow> 'a list option" where
  "get_truthy v = (case v of None \<Rightarrow> None | Some xs \<Rightarrow> if xs \<noteq> [] then Some xs else None)"

section \<open>Identifier minter (knowledge-graph-builder, \<open>create_uri\<close>)\<close>

text \<open>
  Strings are byte strings: a name stands for its UTF-8 encoding, which is what
  \<open>urllib.parse.quote\<close> works on. \<open>quote\<close> keeps the unreserved characters and the
  characters of \<open>safe\<close>, and writes every other byte as \<open>%XX\<close> in upper-case hex.
\<close>

definition always_safe :: "char \<Rightarrow> bool" where
  "always_safe c =
     (c \<in> set ''ABCDEFGHIJKLMNOPQRSTUVWXYZabcdefghijklmnopqrstuvwxyz0123456789_.-~'')"

definition hex_digit :: "nat \<Rightarrow> char" where
  "hex_digit n = ''0123456789ABCDEF'' ! (n mod 16)"

definition quote_byte :: "string \<Rightarrow> char \<Rightarrow> string" where
  "quote_byte safe c =
     (if always_safe c \<or> c \<in> set safe then [c]
      else [CHR ''%'', hex_digit (of_char c div 16), hex_digit (of_char c mod 16)])"

definition quote :: "string \<Rightarrow> string \<Rightarrow> string" where
  "quote s safe = concat (map (quote_byte safe) s)"

text \<open>\<open>s.replace(old, new)\<close> for one-character \<open>old\<close> and \<open>new\<close>.\<close>

definition replace :: "char \<Rightarrow> char \<Rightarrow> string \<Rightarrow> string" where
  "replace old new s = map (\<lambda>c. if c = old then new else c) s"

text \<open>
  Terms of the statement store: identifiers, literals (lexical form and optional datatype
  identifier) and blank nodes.
\<close>

datatype node = URIRef string | Literal string "string option" | BNode string

definition create_uri :: "string \<Rightarrow> string \<Rightarrow> node" where
  "create_uri base identifier =
     (let safe_id = quote (replace (CHR '' '') (CHR ''_'') identifier) ''''
      in URIRef (base @ safe_id))"

section \<open>Statement store\<close>

type_synonym triple = "node \<times> node \<times> node"

text \<open>
  Modelled from the spec: the store is an \<open>rdflib.Graph\<close>, a third-party class that is not
  part of the sources. Following the spec's Statement Store (\<open>add\<close> inserts, deduplicating by
  full triple equality; \<open>size()\<close>; filtered lookup), it is a list of pairwise distinct
  triples. The order of the list stands for the order in which the store iterates.
\<close>

type_synonym graph = "triple list"

definition Graph :: graph where
  "Graph = []"

definition graph_add :: "triple \<Rightarrow> graph \<Rightarrow> graph" where
  "graph_add t g = (if t \<in> set g then g else g @ [t])"

definition graph_len :: "graph \<Rightarrow> nat" where
  "graph_len g = length g"

definition subjects :: "graph \<Rightarrow> node \<Rightarrow> node \<Rightarrow> node list" where
  "subjects g p ob = map fst (filter (\<lambda>(s, p', ob'). p' = p \<and> ob' = ob) g)"

definition objects :: "graph \<Rightarrow> node \<Rightarrow> node \<Rightarrow> node list" where
  "objects g s p = map (\<lambda>(s', p', ob). ob) (filter (\<lambda>(s', p', ob). s' = s \<and> p' = p) g)"

subsection \<open>Namespaces\<close>

definition SCHEMA :: "string \<Rightarrow> node" where
  "SCHEMA n = URIRef (''https://schema.org/'' @ n)"

definition REPRO :: "string \<Rightarrow> node" where
  "REPRO n = URIRef (''https://reproducibility.org/'' @ n)"

definition SCIENTIFIC :: "string \<Rightarrow> node" where
  "SCIENTIFIC n = URIRef (''https://scientific.org/'' @ n)"

definition DCTERMS :: "string \<Rightarrow> node" where
  "DCTERMS n = URIRef (''http://purl.org/dc/terms/'' @ n)"

definition FOAF :: "string \<Rightarrow> node" where
  "FOAF n = URIRef (''http://xmlns.com/foaf/0.1/'' @ n)"

definition RDF :: "string \<Rightarrow> node" where
  "RDF n = URIRef (''http://www.w3.org/1999/02/22-rdf-syntax-ns#'' @ n)"

definition RDFS :: "string \<Rightarrow> node" where
  "RDFS n = URIRef (''http://www.w3.org/2000/01/rdf-schema#'' @ n)"

definition XSD :: "string \<Rightarrow> string" where
  "XSD n = ''http://www.w3.org/2001/XMLSchema#'' @ n"

section \<open>Graph ingestion (knowledge-graph-builder)\<close>

text \<open>
  The builder's methods mutate \<open>self.graph\<close> and may raise. A method is a function from
  the store to an outcome (the exception raised or the value returned) and the store it
  leaves behind: what was added before an exception stays in the store.
\<close>

type_synonym 'a builder = "graph \<Rightarrow> (error + 'a) \<times> graph"

definition ret :: "'a \<Rightarrow> 'a builder" where
  "ret x = (\<lambda>g. (Inr x, g))"

definition raise :: "error \<Rightarrow> 'a builder" where
  "raise e = (\<lambda>g. (Inl e, g))"

definition bnd :: "'a builder \<Rightarrow> ('a \<Rightarrow> 'b builder) \<Rightarrow> 'b builder" where
  "bnd m k = (\<lambda>g. case m g of (Inl e, g') \<Rightarrow> (Inl e, g') | (Inr x, g') \<Rightarrow> k x g')"

text \<open>\<open>self.graph.add(t)\<close>.\<close>

definition do_add :: "triple \<Rightarrow> unit builder" where
  "do_add t = (\<lambda>g. (Inr (), graph_add t g))"

text \<open>A sequence of statements; the first exception ends it.\<close>

fun block :: "unit builder list \<Rightarrow> unit builder" where
  "block [] = ret ()"
| "block (m # ms) = bnd m (\<lambda>_. block ms)"

text \<open>
  \<open>if d.get(key): body\<close> with no else branch, where \<open>body\<close> reads \<open>d[key]\<close>: the body
  runs on the value of the key when the key is present and its value is truthy.
\<close>

definition if_get :: "'a list option \<Rightarrow> ('a list \<Rightarrow> unit builder) \<Rightarrow> unit builder" where
  "if_get v body = (case get_truthy v of None \<Rightarrow> ret () | Some x \<Rightarrow> body x)"

text \<open>\<open>for x in xs: body(x)\<close>.\<close>

definition for_each :: "'a list \<Rightarrow> ('a \<Rightarrow> unit builder) \<Rightarrow> unit builder" where
  "for_each xs body = block (map body xs)"

subsection \<open>Input records\<close>

text \<open>
  An author, tool or dataset is given as a string or as a dictionary with string values
  (\<open>Union[str, Dict[str, Any]]\<close>). A dictionary is an association list; \<open>d.get(k)\<close> is
  \<open>map_of d k\<close>.
\<close>

datatype str_or_dict = Str string | Dict "(string \<times> string) list"

text \<open>
  The metadata dictionary, one optional field per key the builder reads; \<open>None\<close> is an
  absent key.
\<close>

record metadata =
  md_title :: "string option"
  md_abstract :: "string option"
  md_datePublished :: "string option"
  md_doi :: "string option"
  md_url :: "string option"
  md_author :: "str_or_dict list option"
  md_keywords :: "string list option"
  md_methodology :: "string option"
  md_tools :: "str_or_dict list option"
  md_datasets :: "str_or_dict list option"
  md_results :: "string option"
  md_conclusions :: "string option"

text \<open>\<open>metadata['title']\<close>: a subscript raises \<open>KeyError\<close> on an absent key.\<close>

definition subscript_title :: "metadata \<Rightarrow> string builder" where
  "subscript_title metadata =
     (case md_title metadata of None \<Rightarrow> raise (KeyError ''title'') | Some t \<Rightarrow> ret t)"

subsection \<open>\<open>add_author\<close>, \<open>add_tool\<close>, \<open>add_dataset\<close>\<close>

definition add_author :: "str_or_dict \<Rightarrow> node builder" where
  "add_author author_data =
     (let (author_name, author_affiliation) =
            (case author_data of
               Str s \<Rightarrow> (s, None)
             | Dict d \<Rightarrow>
                 (case map_of d ''name'' of None \<Rightarrow> ''Unknown Author'' | Some n \<Rightarrow> n,
                  map_of d ''affiliation''));
          author_uri = create_uri ''https://authors.org/'' author_name
      in bnd (block [
           do_add (author_uri, RDF ''type'', SCHEMA ''Person''),
           do_add (author_uri, FOAF ''name'', Literal author_name None),
           do_add (author_uri, SCHEMA ''name'', Literal author_name None),
           if_get author_affiliation (\<lambda>affiliation.
             let affiliation_uri = create_uri ''https://organizations.org/'' affiliation
             in block [
                  do_add (affiliation_uri, RDF ''type'', SCHEMA ''Organization''),
                  do_add (affiliation_uri, SCHEMA ''name'', Literal affiliation None),
                  do_add (author_uri, SCHEMA ''affiliation'', affiliation_uri)])])
         (\<lambda>_. ret author_uri))"

definition add_tool :: "str_or_dict \<Rightarrow> node builder" where
  "add_tool tool_data =
     (let (tool_name, tool_url) =
            (case tool_data of
               Str s \<Rightarrow> (s, None)
             | Dict d \<Rightarrow>
                 (case map_of d ''name'' of None \<Rightarrow> ''Unknown Tool'' | Some n \<Rightarrow> n,
                  map_of d ''url''));
          tool_uri = create_uri ''https://tools.org/'' tool_name
      in bnd (block [
           do_add (tool_uri, RDF ''type'', SCIENTIFIC ''SoftwareTool''),
           do_add (tool_uri, SCHEMA ''name'', Literal tool_name None),
           if_get tool_url (\<lambda>url. do_add (tool_uri, SCHEMA ''url'', URIRef url))])
         (\<lambda>_. ret tool_uri))"

definition add_dataset :: "str_or_dict \<Rightarrow> node builder" where
  "add_dataset dataset_data =
     (let (dataset_name, dataset_url) =
            (case dataset_data of
               Str s \<Rightarrow> (s, None)
             | Dict d \<Rightarrow>
                 (case map_of d ''name'' of None \<Rightarrow> ''Unknown Dataset'' | Some n \<Rightarrow> n,
                  map_of d ''url''));
          dataset_uri = create_uri ''https://datasets.org/'' dataset_name
      in bnd (block [
           do_add (dataset_uri, RDF ''type'', SCHEMA ''Dataset''),
           do_add (dataset_uri, SCHEMA ''name'', Literal dataset_name None),
           if_get dataset_url (\<lambda>url. do_add (dataset_uri, SCHEMA ''url'', URIRef url))])
         (\<lambda>_. ret dataset_uri))"

subsection \<open>\<open>add_paper_metadata\<close>\<close>

text \<open>
  \<open>uuid4\<close> is the string of the random identifier this call draws
  (\<open>str(uuid.uuid4())\<close>); it is used only when the record has no \<open>title\<close> key.
\<close>

definition add_paper_metadata :: "string \<Rightarrow> metadata \<Rightarrow> node builder" where
  "add_paper_metadata uuid4 metadata =
     (let paper_uri =
            (case get_truthy (md_doi metadata) of
               Some doi \<Rightarrow> URIRef (''https://doi.org/'' @ doi)
             | None \<Rightarrow>
                (case get_truthy (md_url metadata) of
                   Some url \<Rightarrow> URIRef url
                 | None \<Rightarrow>
                     create_uri ''https://papers.org/''
                       (case md_title metadata of None \<Rightarrow> uuid4 | Some t \<Rightarrow> t)))
      in bnd (block [
           do_add (paper_uri, RDF ''type'', SCHEMA ''ScholarlyArticle''),
           if_get (md_title metadata) (\<lambda>title. block [
             do_add (paper_uri, SCHEMA ''name'', Literal title None),
             do_add (paper_uri, DCTERMS ''title'', Literal title None)]),
           if_get (md_abstract metadata) (\<lambda>abstract.
             do_add (paper_uri, SCHEMA ''abstract'', Literal abstract None)),
           if_get (md_datePublished metadata) (\<lambda>date.
             do_add (paper_uri, SCHEMA ''datePublished'', Literal date (Some (XSD ''date'')))),
           if_get (md_doi metadata) (\<lambda>doi.
             do_add (paper_uri, SCHEMA ''identifier'', Literal doi None)),
           if_get (md_url metadata) (\<lambda>url.
             do_add (paper_uri, SCHEMA ''url'', URIRef url)),
           if_get (md_author metadata) (\<lambda>author_list.
             for_each author_list (\<lambda>author_data.
               bnd (add_author author_data) (\<lambda>author_uri.
                 do_add (paper_uri, SCHEMA ''author'', author_uri)))),
           if_get (md_keywords metadata) (\<lambda>keyword_list.
             for_each keyword_list (\<lambda>keyword.
               let keyword_uri = create_uri ''https://keywords.org/'' keyword
               in block [
                    do_add (keyword_uri, RDF ''type'', SCHEMA ''DefinedTerm''),
                    do_add (keyword_uri, SCHEMA ''name'', Literal keyword None),
                    do_add (paper_uri, SCHEMA ''keywords'', keyword_uri)])),
           if_get (md_methodology metadata) (\<lambda>methodology.
             bnd (subscript_title metadata) (\<lambda>title.
               let method_uri = create_uri ''https://methods.org/'' (title @ ''_method'')
               in block [
                    do_add (method_uri, RDF ''type'', SCIENTIFIC ''Methodology''),
                    do_add (method_uri, SCHEMA ''description'', Literal methodology None),
                    do_add (paper_uri, SCIENTIFIC ''usesMethodology'', method_uri)])),
           if_get (md_tools metadata) (\<lambda>tool_list.
             for_each tool_list (\<lambda>tool.
               bnd (add_tool tool) (\<lambda>tool_uri.
                 do_add (paper_uri, SCIENTIFIC ''usesTool'', tool_uri)))),
           if_get (md_datasets metadata) (\<lambda>dataset_list.
             for_each dataset_list (\<lambda>dataset.
               bnd (add_dataset dataset) (\<lambda>dataset_uri.
                 do_add (paper_uri, SCIENTIFIC ''usesDataset'', dataset_uri)))),
           if_get (md_results metadata) (\<lambda>results.
             bnd (subscript_title metadata) (\<lambda>title.
               let result_uri = create_uri ''https://results.org/'' (title @ ''_results'')
               in block [
                    do_add (result_uri, RDF ''type'', SCIENTIFIC ''Results''),
                    do_add (result_uri, SCHEMA ''description'', Literal results None),
                    do_add (paper_uri, SCIENTIFIC ''hasResults'', result_uri)])),
           if_get (md_conclusions metadata) (\<lambda>conclusions.
             bnd (subscript_title metadata) (\<lambda>title.
               let conclusion_uri =
                     create_uri ''https://conclusions.org/'' (title @ ''_conclusions'')
               in block [
                    do_add (conclusion_uri, RDF ''type'', SCIENTIFIC ''Conclusions''),
                    do_add (conclusion_uri, SCHEMA ''description'', Literal conclusions None),
                    do_add (paper_uri, SCIENTIFIC ''hasConclusions'', conclusion_uri)]))])
         (\<lambda>_. ret paper_uri))"

subsection \<open>\<open>get_statistics\<close>\<close>

record statistics =
  total_triples :: nat
  papers :: nat
  authors :: nat
  tools :: nat
  datasets :: nat
  assessments :: nat

definition get_statistics :: "graph \<Rightarrow> statistics" where
  "get_statistics g =
     \<lparr> total_triples = graph_len g,
       papers = length (subjects g (RDF ''type'') (SCHEMA ''ScholarlyArticle'')),
       authors = length (subjects g (RDF ''type'') (SCHEMA ''Person'')),
       tools = length (subjects g (RDF ''type'') (SCIENTIFIC ''SoftwareTool'')),
       datasets = length (subjects g (RDF ''type'') (SCHEMA ''Dataset'')),
       assessments = length (subjects g (RDF ''type'') (REPRO ''ReproducibilityAssessment'')) \<rparr>"

section \<open>Pattern analyzer (hypothesis-generator)\<close>

text \<open>\<open>str(node)\<close>: the identifier, or the lexical form of a literal.\<close>

fun node_str :: "node \<Rightarrow> string" where
  "node_str (URIRef s) = s"
| "node_str (Literal s dt) = s"
| "node_str (BNode s) = s"

text \<open>
  A frequency table is a dictionary from names to counts, kept in insertion order. The
  analyzer creates its tables as \<open>defaultdict(int)\<close>; \<open>collections.Counter\<close> is the
  dictionary class that also has \<open>most_common\<close>. The constructor records the class of the
  object, which decides whether a method call on it succeeds.
\<close>

datatype table = DefaultDict "(string \<times> nat) list" | Counter "(string \<times> nat) list"

fun items :: "table \<Rightarrow> (string \<times> nat) list" where
  "items (DefaultDict kvs) = kvs"
| "items (Counter kvs) = kvs"

definition keys :: "table \<Rightarrow> string list" where
  "keys t = map fst (items t)"

text \<open>\<open>d.get(k, default)\<close>.\<close>

definition table_get :: "table \<Rightarrow> string \<Rightarrow> nat \<Rightarrow> nat" where
  "table_get t k dflt = (case map_of (items t) k of None \<Rightarrow> dflt | Some v \<Rightarrow> v)"

text \<open>\<open>d[k] += 1\<close> on a \<open>defaultdict(int)\<close>: a new key is appended with count 1.\<close>

fun incr :: "string \<Rightarrow> (string \<times> nat) list \<Rightarrow> (string \<times> nat) list" where
  "incr k [] = [(k, 1)]"
| "incr k ((k', n) # kvs) = (if k' = k then (k', n + 1) # kvs else (k', n) # incr k kvs)"

text \<open>
  \<open>most_common(n)\<close> of a \<open>Counter\<close>: the \<open>n\<close> entries with the largest counts, largest
  first, entries with equal counts in insertion order.
\<close>

definition most_common :: "nat \<Rightarrow> (string \<times> nat) list \<Rightarrow> (string \<times> nat) list" where
  "most_common n kvs = take n (sort_key (\<lambda>(k, c). - int c) kvs)"

text \<open>
  Modelled from the spec: \<open>networkx.Graph\<close> and \<open>degree_centrality\<close> are third-party code
  that is not part of the sources. The co-reference graph is undirected, its nodes kept in
  order of first appearance, and centrality is \<open>degree(entity) / (|entities| - 1)\<close>.
\<close>

record nx_graph =
  nodes :: "string list"
  edges :: "(string \<times> string) list"

definition nx_Graph :: nx_graph where
  "nx_Graph = \<lparr> nodes = [], edges = [] \<rparr>"

definition add_node :: "string \<Rightarrow> string list \<Rightarrow> string list" where
  "add_node n ns = (if n \<in> set ns then ns else ns @ [n])"

definition add_edge :: "string \<Rightarrow> string \<Rightarrow> nx_graph \<Rightarrow> nx_graph" where
  "add_edge u v G =
     \<lparr> nodes = add_node v (add_node u (nodes G)),
       edges = (if (u, v) \<in> set (edges G) \<or> (v, u) \<in> set (edges G) then edges G
                else edges G @ [(u, v)]) \<rparr>"

definition degree :: "nx_graph \<Rightarrow> string \<Rightarrow> nat" where
  "degree G n =
     sum_list (map (\<lambda>(u, v). (if u = n then 1 else 0) + (if v = n then 1 else 0)) (edges G))"

definition degree_centrality :: "nx_graph \<Rightarrow> (string \<times> rat) list" where
  "degree_centrality G =
     (if length (nodes G) \<le> 1 then map (\<lambda>n. (n, 1)) (nodes G)
      else map (\<lambda>n. (n, of_nat (degree G n) * (1 / (of_nat (length (nodes G)) - 1))))
             (nodes G))"

definition build_networkx_graph :: "graph \<Rightarrow> nx_graph \<Rightarrow> nx_graph" where
  "build_networkx_graph g nx =
     fold (\<lambda>(subj, pred, obj) G.
             case obj of URIRef u \<Rightarrow> add_edge (node_str subj) (node_str obj) G | _ \<Rightarrow> G)
          g nx"

definition get_entity_name :: "graph \<Rightarrow> node \<Rightarrow> string option" where
  "get_entity_name g entity_uri =
     (case objects g entity_uri (SCHEMA ''name'') of
        name # _ \<Rightarrow> Some (node_str name)
      | [] \<Rightarrow>
         (case objects g entity_uri (RDFS ''label'') of
            name # _ \<Rightarrow> Some (node_str name)
          | [] \<Rightarrow> None))"

record analysis =
  entity_counts :: table
  relationship_counts :: table
  tool_usage :: table
  dataset_usage :: table
  author_collaborations :: table
  reproducibility_scores :: "rat list"
  highly_connected_entities :: "(string \<times> rat) list"
  research_gaps :: "string list"

text \<open>
  Counts the uses of the named objects of predicate \<open>pred\<close>: an object without a name, or
  with the empty name, is dropped.
\<close>

definition usage_counts :: "graph \<Rightarrow> node \<Rightarrow> (string \<times> nat) list" where
  "usage_counts g usage_pred =
     fold (\<lambda>(subj, pred, obj) d.
             if pred = usage_pred then
               (case get_entity_name g obj of
                  None \<Rightarrow> d
                | Some name \<Rightarrow> if name \<noteq> [] then incr name d else d)
             else d)
          g []"

text \<open>
  Scores are exact rationals. \<open>py_float\<close> is Python's \<open>float()\<close> on the lexical form of
  the object; \<open>None\<close> is its \<open>ValueError\<close>, which the analyzer swallows.
\<close>

definition analyze_graph_patterns ::
  "(string \<Rightarrow> rat option) \<Rightarrow> graph \<Rightarrow> nx_graph \<Rightarrow> analysis" where
  "analyze_graph_patterns py_float g nx =
     \<lparr> entity_counts = DefaultDict
         (fold (\<lambda>(subj, pred, obj) d. if pred = RDF ''type'' then incr (node_str obj) d else d)
               g []),
       relationship_counts = DefaultDict
         (fold (\<lambda>(subj, pred, obj) d. if pred = RDF ''type'' then d else incr (node_str pred) d)
               g []),
       tool_usage = DefaultDict (usage_counts g (SCIENTIFIC ''usesTool'')),
       dataset_usage = DefaultDict (usage_counts g (SCIENTIFIC ''usesDataset'')),
       author_collaborations = DefaultDict [],
       reproducibility_scores =
         concat (map (\<lambda>(subj, pred, obj).
                        if pred = REPRO ''reproducibilityScore'' then
                          (case py_float (node_str obj) of None \<Rightarrow> [] | Some score \<Rightarrow> [score])
                        else [])
                     g),
       highly_connected_entities =
         (if nodes nx \<noteq> [] then take 10 (sort_key (\<lambda>(n, c). - c) (degree_centrality nx))
          else []),
       research_gaps = [] \<rparr>"

section \<open>Opportunity miner (hypothesis-generator)\<close>

text \<open>
  An opportunity dictionary: every opportunity has \<open>type\<close>, \<open>description\<close> and
  \<open>rationale\<close>; the payload keys \<open>tools\<close>, \<open>dataset\<close> and \<open>current_avg_score\<close> are
  optional, \<open>None\<close> being an absent key.
\<close>

record opportunity =
  opp_type :: string
  opp_description :: string
  opp_tools :: "string list option"
  opp_dataset :: "string option"
  opp_current_avg_score :: "rat option"
  opp_rationale :: string

definition count_combined_tool_usage :: "graph \<Rightarrow> string \<Rightarrow> string \<Rightarrow> nat" where
  "count_combined_tool_usage g tool1 tool2 =
     (let uses = filter (\<lambda>(subj, pred, obj). pred = SCIENTIFIC ''usesTool'') g;
          papers_with_tool1 =
            map fst (filter (\<lambda>(subj, pred, obj). get_entity_name g obj = Some tool1) uses);
          papers_with_tool2 =
            map fst (filter (\<lambda>(subj, pred, obj). get_entity_name g obj \<noteq> Some tool1 \<and>
                                                 get_entity_name g obj = Some tool2) uses)
      in card (set papers_with_tool1 \<inter> set papers_with_tool2))"

definition find_research_opportunities ::
  "graph \<Rightarrow> analysis \<Rightarrow> error + opportunity list" where
  "find_research_opportunities g analysis =
     (case tool_usage analysis of
        DefaultDict kvs \<Rightarrow> Inl AttributeError
      | Counter kvs \<Rightarrow>
          (let popular_tools = map fst (most_common 10 kvs);
               tool_opportunities =
                 concat (map (\<lambda>(i, tool1).
                   concat (map (\<lambda>tool2.
                     if count_combined_tool_usage g tool1 tool2 = 0 then
                       [\<lparr> opp_type = ''tool_combination'',
                          opp_description = ''Explore combining '' @ tool1 @ '' with '' @ tool2,
                          opp_tools = Some [tool1, tool2],
                          opp_dataset = None,
                          opp_current_avg_score = None,
                          opp_rationale =
                  ''These popular tools haven't been used together in existing research'' \<rparr>]
                     else [])
                     (drop (i + 1) popular_tools)))
                   (enumerate 0 popular_tools));
               underused_datasets =
                 map fst (filter (\<lambda>(name, count). count = 1) (items (dataset_usage analysis)));
               dataset_opportunities =
                 map (\<lambda>dataset.
                       \<lparr> opp_type = ''dataset_reuse'',
                         opp_description = ''Apply different methodologies to '' @ dataset,
                         opp_tools = None,
                         opp_dataset = Some dataset,
                         opp_current_avg_score = None,
                         opp_rationale = ''This dataset has been underutilized in research'' \<rparr>)
                     (take 5 underused_datasets);
               scores = reproducibility_scores analysis;
               reproducibility_opportunities =
                 (if scores \<noteq> [] then
                    (let avg_score = sum_list scores / of_nat (length scores)
                     in if avg_score < 7 / 10 then
                          [\<lparr> opp_type = ''reproducibility_improvement'',
                             opp_description = ''Develop better reproducibility practices'',
                             opp_tools = None,
                             opp_dataset = None,
                             opp_current_avg_score = Some avg_score,
                             opp_rationale =
                               ''Current research shows low reproducibility scores'' \<rparr>]
                        else [])
                  else [])
           in Inr (tool_opportunities @ dataset_opportunities @ reproducibility_opportunities)))"

section \<open>Hypothesis synthesizer (hypothesis-generator)\<close>

text \<open>
  Values of hypothesis dictionaries and of parsed JSON. Numbers are exact rationals; a
  dictionary is an association list with distinct keys.
\<close>

datatype pyval =
    PNone
  | PBool bool
  | PNum rat
  | PStr string
  | PList "pyval list"
  | PDict "(string \<times> pyval) list"

type_synonym pydict = "(string \<times> pyval) list"

text \<open>\<open>xs[:n]\<close>: a negative \<open>n\<close> counts from the end.\<close>

definition slice_to :: "int \<Rightarrow> 'a list \<Rightarrow> 'a list" where
  "slice_to n xs = (if 0 \<le> n then take (nat n) xs else take (length xs - nat (- n)) xs)"

subsection \<open>Deterministic path\<close>

text \<open>
  The body of the loop of \<open>_generate_rule_based_hypotheses\<close>: the hypothesis built from one
  opportunity. \<open>opp['tools']\<close> and \<open>opp['dataset']\<close> raise \<open>KeyError\<close> on an absent key,
  \<open>opp['tools'][0]\<close> and \<open>opp['tools'][1]\<close> raise \<open>IndexError\<close> on a list that is too short.
\<close>

definition rule_based_hypothesis :: "opportunity \<Rightarrow> error + pydict" where
  "rule_based_hypothesis opp =
     (if opp_type opp = ''tool_combination'' then
        (case opp_tools opp of
           None \<Rightarrow> Inl (KeyError ''tools'')
         | Some [] \<Rightarrow> Inl IndexError
         | Some [tool0] \<Rightarrow> Inl IndexError
         | Some (tool0 # tool1 # rest) \<Rightarrow>
             Inr [(''hypothesis'',
                     PStr (''Combining '' @ tool0 @ '' and '' @ tool1 @
                           '' will improve research outcomes'')),
                  (''rationale'', PStr (opp_rationale opp)),
                  (''methodology'',
                     PStr (''Develop integrated workflow using both '' @ tool0 @ '' and '' @
                           tool1)),
                  (''required_resources'', PList (map PStr (tool0 # tool1 # rest))),
                  (''expected_impact'', PStr ''Improved computational efficiency and accuracy''),
                  (''feasibility'', PStr ''medium''),
                  (''novelty_score'', PNum (7 / 10))])
      else if opp_type opp = ''dataset_reuse'' then
        (case opp_dataset opp of
           None \<Rightarrow> Inl (KeyError ''dataset'')
         | Some dataset \<Rightarrow>
             Inr [(''hypothesis'',
                     PStr (''Applying machine learning methods to '' @ dataset @
                           '' will reveal new insights'')),
                  (''rationale'', PStr (opp_rationale opp)),
                  (''methodology'',
                     PStr (''Apply modern ML techniques to analyze '' @ dataset)),
                  (''required_resources'', PList [PStr dataset, PStr ''machine learning tools'']),
                  (''expected_impact'', PStr ''Discovery of previously unknown patterns''),
                  (''feasibility'', PStr ''high''),
                  (''novelty_score'', PNum (6 / 10))])
      else
        Inr [(''hypothesis'',
                PStr ''Improving research reproducibility through automated validation''),
             (''rationale'', PStr ''Current reproducibility scores are low''),
             (''methodology'', PStr ''Develop automated reproducibility assessment tools''),
             (''required_resources'', PList [PStr ''containerization'', PStr ''automated testing'']),
             (''expected_impact'', PStr ''Higher reproducibility across scientific research''),
             (''feasibility'', PStr ''medium''),
             (''novelty_score'', PNum (5 / 10))])"

text \<open>The loop: hypotheses are appended in order, the first exception ends it.\<close>

fun rule_based_loop :: "opportunity list \<Rightarrow> error + pydict list" where
  "rule_based_loop [] = Inr []"
| "rule_based_loop (opp # opps) =
     (case rule_based_hypothesis opp of
        Inl e \<Rightarrow> Inl e
      | Inr hypothesis \<Rightarrow>
          (case rule_based_loop opps of
             Inl e \<Rightarrow> Inl e
           | Inr hypotheses \<Rightarrow> Inr (hypothesis # hypotheses)))"

definition generate_rule_based_hypotheses ::
  "analysis \<Rightarrow> opportunity list \<Rightarrow> int \<Rightarrow> error + pydict list" where
  "generate_rule_based_hypotheses analysis opportunities num_hypotheses =
     rule_based_loop (slice_to num_hypotheses opportunities)"

subsection \<open>Backend path\<close>

definition digit_char :: "nat \<Rightarrow> char" where
  "digit_char n = ''0123456789'' ! (n mod 10)"

function str_of_nat :: "nat \<Rightarrow> string" where
  "str_of_nat n = (if n < 10 then [digit_char n] else str_of_nat (n div 10) @ [digit_char n])"
  by pat_completeness auto
termination
  by (relation "measure id") auto

text \<open>\<open>sep.join(xs)\<close>.\<close>

fun join :: "string \<Rightarrow> string list \<Rightarrow> string" where
  "join sep [] = []"
| "join sep [x] = x"
| "join sep (x # y # ys) = x @ sep @ join sep (y # ys)"

definition newline :: string where
  "newline = [CHR 0x0A]"

text \<open>A block of text lines, each ended by a newline.\<close>

definition text_lines :: "string list \<Rightarrow> string" where
  "text_lines ls = concat (map (\<lambda>l. l @ newline) ls)"

text \<open>
  What the synthesizer takes from outside the sources: \<open>llm_call vendor model api_key
  context\<close> is the vendor SDK call up to the text of the response (or the exception it
  raises), \<open>json_loads\<close> is \<open>json.loads\<close>, and \<open>float_repr\<close> is the text Python prints for a
  float.
\<close>

datatype vendor = OpenAI | Anthropic | Gemini

record externals =
  llm_call :: "vendor \<Rightarrow> string \<Rightarrow> string \<Rightarrow> string \<Rightarrow> error + string"
  json_loads :: "string \<Rightarrow> error + pyval"
  float_repr :: "rat \<Rightarrow> string"

definition prepare_llm_context ::
  "externals \<Rightarrow> analysis \<Rightarrow> opportunity list \<Rightarrow> string option \<Rightarrow> string" where
  \<open>prepare_llm_context ext analysis opportunities focus_area =
     (let scores = reproducibility_scores analysis;
          context0 = text_lines [
            [],
            ''Based on the following analysis of a scientific knowledge graph, generate novel research hypotheses:'',
            [],
            ''GRAPH STATISTICS:'',
            ''- Papers: '' @
               str_of_nat (table_get (entity_counts analysis) ''https://schema.org/ScholarlyArticle'' 0),
            ''- Authors: '' @
               str_of_nat (table_get (entity_counts analysis) ''https://schema.org/Person'' 0),
            ''- Tools: '' @
               str_of_nat (table_get (entity_counts analysis) ''https://scientific.org/SoftwareTool'' 0),
            ''- Datasets: '' @
               str_of_nat (table_get (entity_counts analysis) ''https://schema.org/Dataset'' 0),
            [],
            ''POPULAR TOOLS:'',
            join '', '' (take 10 (keys (tool_usage analysis))),
            [],
            ''POPULAR DATASETS:'',
            join '', '' (take 10 (keys (dataset_usage analysis))),
            [],
            ''REPRODUCIBILITY INSIGHTS:'',
            ''- Average reproducibility score: '' @
               (if scores \<noteq> [] then float_repr ext (sum_list scores / of_nat (length scores))
                else ''N/A''),
            ''- Number of assessed repositories: '' @ str_of_nat (length scores),
            [],
            ''RESEARCH OPPORTUNITIES:''];
          context1 = context0 @
            concat (map (\<lambda>opp. ''- '' @ opp_description opp @ '': '' @ opp_rationale opp @ newline)
                        (take 5 opportunities));
          context2 = (case get_truthy focus_area of
                        Some area \<Rightarrow> context1 @ newline @ ''FOCUS AREA: '' @ area @ newline
                      | None \<Rightarrow> context1)
      in context2 @ text_lines [
            [],
            ''Generate research hypotheses that:'',
            ''1. Combine existing tools/datasets in novel ways'',
            ''2. Address reproducibility challenges'',
            ''3. Explore underutilized resources'',
            ''4. Propose methodological improvements'',
            ''5. Suggest cross-disciplinary applications'',
            [],
            ''Return the response as a JSON array with this structure:'',
            ''['',
            ''  {'',
            ''    "hypothesis": "Clear, testable research hypothesis",'',
            ''    "rationale": "Why this hypothesis is worth investigating",'',
            ''    "methodology": "Suggested approach to test the hypothesis",'',
            ''    "required_resources": ["tool1", "dataset1", "etc"],'',
            ''    "expected_impact": "Potential scientific impact",'',
            ''    "feasibility": "high/medium/low",'',
            ''    "novelty_score": 0.8'',
            ''  }'',
            '']''])\<close>

text \<open>
  \<open>hypotheses[:num_hypotheses]\<close> on whatever \<open>json.loads\<close> returned: a list or a string
  is sliced, any other value has no slicing and raises.
\<close>

fun slice_value :: "pyval \<Rightarrow> int \<Rightarrow> error + pyval" where
  "slice_value (PList xs) n = Inr (PList (slice_to n xs))"
| "slice_value (PStr s) n = Inr (PStr (slice_to n s))"
| "slice_value _ n = Inl TypeError"

text \<open>
  The three vendor methods share their shape: call the vendor, parse the text of the
  response, slice the parsed value.
\<close>

definition generate_with ::
  "externals \<Rightarrow> vendor \<Rightarrow> string \<Rightarrow> string \<Rightarrow> string \<Rightarrow> int \<Rightarrow> error + pyval" where
  "generate_with ext v model api_key context num_hypotheses =
     (case llm_call ext v model api_key context of
        Inl e \<Rightarrow> Inl e
      | Inr result \<Rightarrow>
          (case json_loads ext result of
             Inl e \<Rightarrow> Inl e
           | Inr hypotheses \<Rightarrow> slice_value hypotheses num_hypotheses))"

definition generate_with_openai ::
  "externals \<Rightarrow> string \<Rightarrow> string \<Rightarrow> string \<Rightarrow> int \<Rightarrow> error + pyval" where
  "generate_with_openai ext model api_key context num_hypotheses =
     generate_with ext OpenAI model api_key context num_hypotheses"

definition generate_with_anthropic ::
  "externals \<Rightarrow> string \<Rightarrow> string \<Rightarrow> int \<Rightarrow> error + pyval" where
  "generate_with_anthropic ext api_key context num_hypotheses =
     generate_with ext Anthropic ''claude-3-sonnet-20240229'' api_key context num_hypotheses"

definition generate_with_gemini ::
  "externals \<Rightarrow> string \<Rightarrow> string \<Rightarrow> int \<Rightarrow> error + pyval" where
  "generate_with_gemini ext api_key context num_hypotheses =
     generate_with ext Gemini ''gemini-pro'' api_key context num_hypotheses"

text \<open>\<open>s.lower()\<close> on ASCII letters; model names are ASCII.\<close>

definition lower :: "string \<Rightarrow> string" where
  "lower s =
     map (\<lambda>c. if 65 \<le> (of_char c :: nat) \<and> (of_char c :: nat) \<le> 90
               then char_of (of_char c + (32 :: nat)) else c) s"

text \<open>\<open>sub in s\<close> for strings.\<close>

fun str_in :: "string \<Rightarrow> string \<Rightarrow> bool" where
  "str_in sub [] = (sub = [])"
| "str_in sub (c # cs) = (prefix sub (c # cs) \<or> str_in sub cs)"

text \<open>\<open>try: body except Exception: handler\<close>.\<close>

definition try_except :: "error + 'a \<Rightarrow> (error + 'a) \<Rightarrow> error + 'a" where
  "try_except body handler =
     (case body of
        Inl e \<Rightarrow> if isinstance_Exception e then handler else Inl e
      | Inr v \<Rightarrow> Inr v)"

text \<open>The list of hypothesis dictionaries of the deterministic path, as a value.\<close>

definition as_value :: "error + pydict list \<Rightarrow> error + pyval" where
  "as_value r = (case r of Inl e \<Rightarrow> Inl e | Inr hs \<Rightarrow> Inr (PList (map PDict hs)))"

definition generate_hypotheses_with_llm ::
  "externals \<Rightarrow> string option \<Rightarrow> string \<Rightarrow> analysis \<Rightarrow> opportunity list \<Rightarrow> int \<Rightarrow>
     string option \<Rightarrow> error + pyval" where
  "generate_hypotheses_with_llm ext api_key model analysis opportunities num_hypotheses
       focus_area =
     (case get_truthy api_key of
        None \<Rightarrow>
          as_value (generate_rule_based_hypotheses analysis opportunities num_hypotheses)
      | Some key \<Rightarrow>
          (let context = prepare_llm_context ext analysis opportunities focus_area
           in try_except
                (if str_in ''gpt'' (lower model) then
                   generate_with_openai ext model key context num_hypotheses
                 else if str_in ''claude'' (lower model) then
                   generate_with_anthropic ext key context num_hypotheses
                 else if str_in ''gemini'' (lower model) then
                   generate_with_gemini ext key context num_hypotheses
                 else
                   as_value (generate_rule_based_hypotheses analysis opportunities
                               num_hypotheses))
                (as_value (generate_rule_based_hypotheses analysis opportunities
                             num_hypotheses))))"

section \<open>Report assembler (hypothesis-generator)\<close>

text \<open>
  \<open>load_knowledge_graph\<close>: the file is parsed into the store of the generator, which is
  empty before, and the co-reference graph is built from the store; an exception of the
  parser is logged and raised again. \<open>parse_graph\<close> is the parser of the store's library:
  the statements of the file, or the exception it raises.
\<close>

definition load_knowledge_graph ::
  "(string \<Rightarrow> error + triple list) \<Rightarrow> string \<Rightarrow> error + graph \<times> nx_graph" where
  "load_knowledge_graph parse_graph graph_file =
     (case parse_graph graph_file of
        Inl e \<Rightarrow> Inl e
      | Inr statements \<Rightarrow>
          (let g = fold graph_add statements Graph
           in Inr (g, build_networkx_graph g nx_Graph)))"

text \<open>
  \<open>generate_research_report\<close>: load and analyze the graph, mine the opportunities,
  generate the hypotheses, then build the report. \<open>api_key\<close> and \<open>model\<close> are the
  generator's attributes. \<open>assemble\<close> stands for the construction of the report dictionary
  from the store, the analysis, the opportunities and the hypotheses: what is proved
  about this function holds whatever that construction computes.
\<close>

definition generate_research_report ::
  "externals \<Rightarrow> (string \<Rightarrow> rat option) \<Rightarrow> (string \<Rightarrow> error + triple list) \<Rightarrow>
   string option \<Rightarrow> string \<Rightarrow>
   (graph \<Rightarrow> analysis \<Rightarrow> opportunity list \<Rightarrow> pyval \<Rightarrow> error + 'report) \<Rightarrow>
   string \<Rightarrow> int \<Rightarrow> string option \<Rightarrow> error + 'report" where
  "generate_research_report ext py_float parse_graph api_key model assemble
       graph_file num_hypotheses focus_area =
     (case load_knowledge_graph parse_graph graph_file of
        Inl e \<Rightarrow> Inl e
      | Inr (g, nx) \<Rightarrow>
          (let analysis = analyze_graph_patterns py_float g nx
           in case find_research_opportunities g analysis of
                Inl e \<Rightarrow> Inl e
              | Inr opportunities \<Rightarrow>
                  (case generate_hypotheses_with_llm ext api_key model analysis opportunities
                          num_hypotheses focus_area of
                     Inl e \<Rightarrow> Inl e
                   | Inr hypotheses \<Rightarrow> assemble g analysis opportunities hypotheses)))"

section \<open>Notions used in the statements\<close>

text \<open>The empty metadata dictionary \<open>{}\<close>.\<close>

definition no_metadata :: metadata where
  "no_metadata =
     \<lparr> md_title = None, md_abstract = None, md_datePublished = None, md_doi = None,
       md_url = None, md_author = None, md_keywords = None, md_methodology = None,
       md_tools = None, md_datasets = None, md_results = None, md_conclusions = None \<rparr>"

text \<open>
  A record whose paper identifier does not come from the random fallback: it has a
  \<open>title\<close> key, or a non-empty DOI, or a non-empty URL.
\<close>

definition stable_key :: "metadata \<Rightarrow> bool" where
  "stable_key metadata =
     (md_title metadata \<noteq> None \<or> truthy (md_doi metadata) \<or> truthy (md_url metadata))"

text \<open>
  A builder method whose outcome does not depend on the store and whose effect on the
  store is a fixed sequence of insertions.
\<close>

definition pure_writer :: "'a builder \<Rightarrow> bool" where
  "pure_writer m = (\<exists>r ts. \<forall>g. m g = (r, fold graph_add ts g))"

text \<open>A builder method that returns a value from every store.\<close>

definition returns :: "'a builder \<Rightarrow> bool" where
  "returns m = (\<forall>g. \<exists>x. fst (m g) = Inr x)"

text \<open>The seven keys of a hypothesis dictionary, in the order the templates write them.\<close>

definition required_fields :: "string list" where
  "required_fields =
     [''hypothesis'', ''rationale'', ''methodology'', ''required_resources'',
      ''expected_impact'', ''feasibility'', ''novelty_score'']"

text \<open>
  An opportunity that carries the payload of its kind, as every opportunity of the miner
  does: two tools for a tool combination, the dataset for a dataset reuse.
\<close>

definition complete_opportunity :: "opportunity \<Rightarrow> bool" where
  "complete_opportunity opp =
     (if opp_type opp = ''tool_combination'' then
        (case opp_tools opp of None \<Rightarrow> False | Some ts \<Rightarrow> 2 \<le> length ts)
      else if opp_type opp = ''dataset_reuse'' then opp_dataset opp \<noteq> None
      else True)"

text \<open>The analysis of the empty store: every table and list is empty.\<close>

definition empty_analysis :: analysis where
  "empty_analysis =
     \<lparr> entity_counts = DefaultDict [], relationship_counts = DefaultDict [],
       tool_usage = DefaultDict [], dataset_usage = DefaultDict [],
       author_collaborations = DefaultDict [], reproducibility_scores = [],
       highly_connected_entities = [], research_gaps = [] \<rparr>"

text \<open>
  A store of two papers: \<open>P1\<close> uses the tool named Alpha, \<open>P2\<close> the tool named Beta.
\<close>

definition alpha_beta_graph :: graph where
  "alpha_beta_graph =
     [(URIRef ''https://papers.org/P1'', RDF ''type'', SCHEMA ''ScholarlyArticle''),
      (URIRef ''https://tools.org/Alpha'', SCHEMA ''name'', Literal ''Alpha'' None),
      (URIRef ''https://papers.org/P1'', SCIENTIFIC ''usesTool'',
         URIRef ''https://tools.org/Alpha''),
      (URIRef ''https://papers.org/P2'', RDF ''type'', SCHEMA ''ScholarlyArticle''),
      (URIRef ''https://tools.org/Beta'', SCHEMA ''name'', Literal ''Beta'' None),
      (URIRef ''https://papers.org/P2'', SCIENTIFIC ''usesTool'',
         URIRef ''https://tools.org/Beta'')]"

text \<open>
  Three backends that fail: one whose call raises, one whose response is not JSON, and one
  whose response is a JSON object instead of an array.
\<close>

definition unreachable_backend :: externals where
  "unreachable_backend =
     \<lparr> llm_call = (\<lambda>v model key context. Inl (BackendError ''timeout'')),
       json_loads = (\<lambda>s. Inl JSONDecodeError),
       float_repr = (\<lambda>r. ''0.0'') \<rparr>"

definition garbled_backend :: externals where
  "garbled_backend =
     \<lparr> llm_call = (\<lambda>v model key context. Inr ''Sorry, I cannot help with that.''),
       json_loads = (\<lambda>s. Inl JSONDecodeError),
       float_repr = (\<lambda>r. ''0.0'') \<rparr>"

definition wrong_shape_backend :: externals where
  "wrong_shape_backend =
     \<lparr> llm_call = (\<lambda>v model key context. Inr ''{}''),
       json_loads = (\<lambda>s. Inr (PDict [])),
       float_repr = (\<lambda>r. ''0.0'') \<rparr>"

section \<open>Properties of the minter\<close>

lemma quote_append: "quote (xs @ ys) safe = quote xs safe @ quote ys safe"
  by (simp add: quote_def)

lemma replace_append: "replace a b (xs @ ys) = replace a b xs @ replace a b ys"
  by (simp add: replace_def)

lemma quote_spaces:
  "quote (replace (CHR '' '') (CHR ''_'') (replicate n (CHR '' ''))) [] = replicate n (CHR ''_'')"
  by (induction n) (simp_all add: quote_def replace_def quote_byte_def always_safe_def)

lemmas minter_defs = create_uri_def quote_def replace_def quote_byte_def always_safe_def
  hex_digit_def

text \<open>
  C6, as stated, fails: the minter replaces every space by one underscore and does not
  collapse a run of spaces, so \<open>Foo  Bar\<close> (two spaces) and \<open>Foo Bar\<close> mint different
  identifiers.
\<close>

theorem create_uri_whitespace_run_counterexample:
  "create_uri ''https://papers.org/'' ''Foo  Bar'' \<noteq>
   create_uri ''https://papers.org/'' ''Foo Bar''"
  by (simp add: minter_defs)

text \<open>
  C6, amended: the minter is a function of the namespace and the name alone, and it keeps
  the length of every run of spaces: two names that differ only in the length of one run of
  spaces mint the same identifier exactly when the lengths are equal.
\<close>

theorem create_uri_keeps_space_runs:
  "create_uri ns (a @ replicate m (CHR '' '') @ b) =
   create_uri ns (a @ replicate n (CHR '' '') @ b) \<longleftrightarrow> m = n"
proof -
  let ?q = "\<lambda>s. quote (replace (CHR '' '') (CHR ''_'') s) ''''"
  have run: "?q (a @ replicate k (CHR '' '') @ b) = ?q a @ replicate k (CHR ''_'') @ ?q b"
    for k
    by (simp add: replace_append quote_append quote_spaces)
  show ?thesis
  proof
    assume "create_uri ns (a @ replicate m (CHR '' '') @ b) =
            create_uri ns (a @ replicate n (CHR '' '') @ b)"
    then have "?q (a @ replicate m (CHR '' '') @ b) = ?q (a @ replicate n (CHR '' '') @ b)"
      by (simp add: create_uri_def)
    then have "length (replicate m (CHR ''_'')) = length (replicate n (CHR ''_''))"
      unfolding run by (metis append_eq_append_conv length_append add_right_cancel)
    then show "m = n" by simp
  qed simp
qed

section \<open>Properties of the statement store\<close>

lemma graph_add_set: "set (graph_add t g) = insert t (set g)"
  by (auto simp: graph_add_def)

lemma graph_add_absorb: "t \<in> set g \<Longrightarrow> graph_add t g = g"
  by (simp add: graph_add_def)

lemma fold_graph_add_set: "set (fold graph_add ts g) = set ts \<union> set g"
  by (induction ts arbitrary: g) (auto simp: graph_add_set)

lemma fold_graph_add_absorb: "set ts \<subseteq> set g \<Longrightarrow> fold graph_add ts g = g"
  by (induction ts arbitrary: g) (auto simp: graph_add_def)

lemma fold_graph_add_distinct: "distinct g \<Longrightarrow> distinct (fold graph_add ts g)"
  by (induction ts arbitrary: g) (auto simp: graph_add_def)

lemma subjects_graph_add_other:
  "snd t \<noteq> (p, ob) \<Longrightarrow> subjects (graph_add t g) p ob = subjects g p ob"
  by (cases t) (auto simp: subjects_def graph_add_def)

lemma subjects_graph_add_in: "(s, p, ob) \<in> set g \<Longrightarrow> s \<in> set (subjects g p ob)"
  by (force simp: subjects_def)

text \<open>
  C8: the store has set semantics. Inserting a triple that is already present leaves the
  number of triples (\<open>total_triples\<close>, that is \<open>len(self.graph)\<close>) unchanged, inserting the
  same triple twice counts once, insertion keeps the triples pairwise distinct, and so does
  every sequence of insertions into the empty store.
\<close>

theorem store_set_semantics:
  "(t \<in> set g \<longrightarrow>
      total_triples (get_statistics (graph_add t g)) = total_triples (get_statistics g)) \<and>
   total_triples (get_statistics (graph_add t (graph_add t g))) =
     total_triples (get_statistics (graph_add t g)) \<and>
   (distinct g \<longrightarrow> distinct (graph_add t g)) \<and>
   distinct (fold graph_add ts Graph)"
  by (simp add: get_statistics_def graph_len_def graph_add_def Graph_def
        fold_graph_add_distinct)

theorem store_set_semantics_witness:
  "total_triples (get_statistics
     (graph_add (URIRef ''a'', RDF ''type'', SCHEMA ''Person'')
        [(URIRef ''a'', RDF ''type'', SCHEMA ''Person'')])) = 1 \<and>
   distinct (graph_add (URIRef ''a'', RDF ''type'', SCHEMA ''Person'')
        [(URIRef ''a'', RDF ''type'', SCHEMA ''Person'')])"
  using store_set_semantics [of "(URIRef ''a'', RDF ''type'', SCHEMA ''Person'')"
      "[(URIRef ''a'', RDF ''type'', SCHEMA ''Person'')]" "[]"]
  by (simp add: get_statistics_def graph_len_def)

section \<open>Properties of graph ingestion\<close>

lemmas builder_defs = ret_def raise_def bnd_def do_add_def if_get_def get_truthy_def
  for_each_def subscript_title_def truthy_def

subsection \<open>Every builder method is a fixed sequence of insertions\<close>

lemma pure_writerI: "(\<And>g. m g = (r, fold graph_add ts g)) \<Longrightarrow> pure_writer m"
  unfolding pure_writer_def by blast

lemma pw_ret: "pure_writer (ret x)"
  by (rule pure_writerI[where ts="[]"]) (simp add: ret_def)

lemma pw_raise: "pure_writer (raise e)"
  by (rule pure_writerI[where ts="[]"]) (simp add: raise_def)

lemma pw_do_add: "pure_writer (do_add t)"
  by (rule pure_writerI[where ts="[t]"]) (simp add: do_add_def)

lemma pw_bnd:
  assumes "pure_writer m" and "\<And>x. pure_writer (k x)"
  shows "pure_writer (bnd m k)"
proof -
  from assms(1) obtain r ts where m: "\<And>g. m g = (r, fold graph_add ts g)"
    unfolding pure_writer_def by blast
  show ?thesis
  proof (cases r)
    case (Inl e)
    show ?thesis
      by (rule pure_writerI[where r="Inl e" and ts=ts]) (simp add: bnd_def m Inl)
  next
    case (Inr x)
    from assms(2)[of x] obtain r' ts' where k: "\<And>g. k x g = (r', fold graph_add ts' g)"
      unfolding pure_writer_def by blast
    show ?thesis
      by (rule pure_writerI[where r=r' and ts="ts @ ts'"]) (simp add: bnd_def m Inr k)
  qed
qed

lemma pw_block_Nil: "pure_writer (block [])"
  by (simp add: pw_ret)

lemma pw_block_Cons:
  "pure_writer m \<Longrightarrow> pure_writer (block ms) \<Longrightarrow> pure_writer (block (m # ms))"
  by (simp add: pw_bnd)

lemma pw_block: "(\<And>m. m \<in> set ms \<Longrightarrow> pure_writer m) \<Longrightarrow> pure_writer (block ms)"
  by (induction ms) (auto intro: pw_bnd pw_ret)

lemma pw_if_get: "(\<And>x. pure_writer (body x)) \<Longrightarrow> pure_writer (if_get v body)"
  by (simp add: if_get_def pw_ret split: option.splits)

lemma pw_for_each: "(\<And>x. pure_writer (body x)) \<Longrightarrow> pure_writer (for_each xs body)"
  unfolding for_each_def by (rule pw_block) auto

lemma pw_subscript_title: "pure_writer (subscript_title metadata)"
  by (simp add: subscript_title_def pw_ret pw_raise split: option.splits)

lemmas pw_intros = pw_ret pw_raise pw_do_add pw_bnd pw_block_Nil pw_block_Cons pw_if_get
  pw_for_each pw_subscript_title

lemma pw_add_author: "pure_writer (add_author a)"
  unfolding add_author_def Let_def by (auto split: prod.splits intro!: pw_intros)

lemma pw_add_tool: "pure_writer (add_tool a)"
  unfolding add_tool_def Let_def by (auto split: prod.splits intro!: pw_intros)

lemma pw_add_dataset: "pure_writer (add_dataset a)"
  unfolding add_dataset_def Let_def by (auto split: prod.splits intro!: pw_intros)

lemma pw_add_paper_metadata: "pure_writer (add_paper_metadata u m)"
  unfolding add_paper_metadata_def Let_def
  by (intro pw_intros pw_add_author pw_add_tool pw_add_dataset)

lemma pure_writer_idem:
  assumes "pure_writer m" and "m g = (r, g1)"
  shows "m g1 = (r, g1)"
proof -
  from assms(1) obtain r' ts where m: "\<And>g. m g = (r', fold graph_add ts g)"
    unfolding pure_writer_def by blast
  from assms(2) m[of g] have r: "r' = r" and g1: "g1 = fold graph_add ts g"
    by simp_all
  have "set ts \<subseteq> set g1"
    by (simp add: g1 fold_graph_add_set)
  then have "fold graph_add ts g1 = g1"
    by (rule fold_graph_add_absorb)
  with m[of g1] r show ?thesis by simp
qed

subsection \<open>Ingestion of a record with a title returns\<close>

lemma ret_returns: "returns (ret x)"
  by (simp add: returns_def ret_def)

lemma do_add_returns: "returns (do_add t)"
  by (simp add: returns_def do_add_def)

lemma bnd_returns:
  assumes "returns m" and "\<And>x. returns (k x)"
  shows "returns (bnd m k)"
  unfolding returns_def
proof
  fix g
  from assms(1) obtain x where "fst (m g) = Inr x"
    unfolding returns_def by blast
  then obtain g' where mg: "m g = (Inr x, g')"
    by (cases "m g") simp
  from assms(2)[of x] obtain y where "fst (k x g') = Inr y"
    unfolding returns_def by blast
  then show "\<exists>y. fst (bnd m k g) = Inr y"
    by (simp add: bnd_def mg)
qed

lemma block_Nil_returns: "returns (block [])"
  by (simp add: ret_returns)

lemma block_Cons_returns: "returns m \<Longrightarrow> returns (block ms) \<Longrightarrow> returns (block (m # ms))"
  by (simp add: bnd_returns)

lemma block_returns: "(\<And>m. m \<in> set ms \<Longrightarrow> returns m) \<Longrightarrow> returns (block ms)"
  by (induction ms) (auto intro: bnd_returns ret_returns)

lemma if_get_returns: "(\<And>x. returns (body x)) \<Longrightarrow> returns (if_get v body)"
  by (simp add: if_get_def ret_returns split: option.splits)

lemma for_each_returns: "(\<And>x. returns (body x)) \<Longrightarrow> returns (for_each xs body)"
  unfolding for_each_def by (rule block_returns) auto

lemma subscript_title_returns: "md_title m = Some t \<Longrightarrow> returns (subscript_title m)"
  by (simp add: subscript_title_def ret_returns)

lemmas returns_intros = ret_returns do_add_returns bnd_returns block_Nil_returns
  block_Cons_returns if_get_returns for_each_returns

lemma add_author_returns: "returns (add_author a)"
  unfolding add_author_def Let_def by (auto split: prod.splits intro!: returns_intros)

lemma add_tool_returns: "returns (add_tool a)"
  unfolding add_tool_def Let_def by (auto split: prod.splits intro!: returns_intros)

lemma add_dataset_returns: "returns (add_dataset a)"
  unfolding add_dataset_def Let_def by (auto split: prod.splits intro!: returns_intros)

lemma add_paper_metadata_returns:
  assumes "md_title m = Some t"
  shows "returns (add_paper_metadata u m)"
  unfolding add_paper_metadata_def Let_def
  by (intro returns_intros add_author_returns add_tool_returns add_dataset_returns
        subscript_title_returns[OF assms])

lemma stable_uuid: "stable_key m \<Longrightarrow> add_paper_metadata u1 m = add_paper_metadata u2 m"
proof -
  assume "stable_key m"
  then have "(case get_truthy (md_doi m) of
                Some doi \<Rightarrow> URIRef (''https://doi.org/'' @ doi)
              | None \<Rightarrow>
                 (case get_truthy (md_url m) of
                    Some url \<Rightarrow> URIRef url
                  | None \<Rightarrow>
                      create_uri ''https://papers.org/''
                        (case md_title m of None \<Rightarrow> u1 | Some t \<Rightarrow> t))) =
             (case get_truthy (md_doi m) of
                Some doi \<Rightarrow> URIRef (''https://doi.org/'' @ doi)
              | None \<Rightarrow>
                 (case get_truthy (md_url m) of
                    Some url \<Rightarrow> URIRef url
                  | None \<Rightarrow>
                      create_uri ''https://papers.org/''
                        (case md_title m of None \<Rightarrow> u2 | Some t \<Rightarrow> t)))"
    by (auto simp: stable_key_def get_truthy_def truthy_def split: option.splits)
  then show ?thesis
    unfolding add_paper_metadata_def by simp
qed

subsection \<open>Missing fields\<close>

text \<open>
  C5: ingestion of a record that has a \<open>methodology\<close> but no \<open>title\<close> raises
  \<open>KeyError('title')\<close>: the methodology identifier is built from \<open>metadata['title']\<close>.
  The paper's type statement, added before, stays in the store. The same holds for
  \<open>results\<close> and \<open>conclusions\<close>.
\<close>

theorem add_paper_metadata_missing_title_raises:
  "add_paper_metadata uuid4 (no_metadata\<lparr>md_methodology := Some ''We trained a model''\<rparr>) Graph =
     (Inl (KeyError ''title''),
      [(create_uri ''https://papers.org/'' uuid4, RDF ''type'', SCHEMA ''ScholarlyArticle'')])"
  by (simp add: add_paper_metadata_def no_metadata_def builder_defs Graph_def graph_add_def
        Let_def)

lemma add_paper_metadata_results_raises:
  "fst (add_paper_metadata uuid4 (no_metadata\<lparr>md_results := Some ''95% accuracy''\<rparr>) g) =
     Inl (KeyError ''title'')"
  by (simp add: add_paper_metadata_def no_metadata_def builder_defs Let_def)

lemma add_paper_metadata_conclusions_raises:
  "fst (add_paper_metadata uuid4 (no_metadata\<lparr>md_conclusions := Some ''It works''\<rparr>) g) =
     Inl (KeyError ''title'')"
  by (simp add: add_paper_metadata_def no_metadata_def builder_defs Let_def)

subsection \<open>Repeated ingestion\<close>

text \<open>
  Where a call returns and the identifier does not come from the random fallback, a
  second call with the same record on the resulting store returns the same identifier and
  leaves the store as it is, whatever random identifiers the two calls draw.
\<close>

lemma add_paper_metadata_repeat:
  assumes "stable_key metadata" and "add_paper_metadata u1 metadata g = (Inr p, g1)"
  shows "add_paper_metadata u2 metadata g1 = (Inr p, g1)"
  using pure_writer_idem[OF pw_add_paper_metadata assms(2)]
  by (simp add: stable_uuid[OF assms(1), of u1 u2])

text \<open>
  A call returns when the record has a \<open>title\<close> key, and when it has no \<open>methodology\<close>,
  \<open>results\<close> or \<open>conclusions\<close>.
\<close>

lemma if_get_None: "get_truthy v = None \<Longrightarrow> if_get v body = ret ()"
  by (simp add: if_get_def)

lemma add_paper_metadata_returns_untitled:
  assumes "get_truthy (md_methodology m) = None" and "get_truthy (md_results m) = None"
    and "get_truthy (md_conclusions m) = None"
  shows "returns (add_paper_metadata u m)"
  unfolding add_paper_metadata_def Let_def
  by (simp only: if_get_None[OF assms(1)] if_get_None[OF assms(2)] if_get_None[OF assms(3)])
     (intro returns_intros add_author_returns add_tool_returns add_dataset_returns)

text \<open>
  C7: a record with a DOI and a \<open>methodology\<close> but no \<open>title\<close>. The first call on the
  empty store adds the paper's type and identifier statements and then raises
  \<open>KeyError('title')\<close>, and so does every further call, on any store: no call returns the
  paper identifier.
\<close>

theorem add_paper_metadata_doi_without_title_raises:
  "add_paper_metadata u1
     (no_metadata\<lparr>md_doi := Some ''10.1000/x1'', md_methodology := Some ''Survey''\<rparr>) Graph =
     (Inl (KeyError ''title''),
      [(URIRef ''https://doi.org/10.1000/x1'', RDF ''type'', SCHEMA ''ScholarlyArticle''),
       (URIRef ''https://doi.org/10.1000/x1'', SCHEMA ''identifier'',
          Literal ''10.1000/x1'' None)]) \<and>
   fst (add_paper_metadata u2
          (no_metadata\<lparr>md_doi := Some ''10.1000/x1'', md_methodology := Some ''Survey''\<rparr>) g) =
     Inl (KeyError ''title'')"
  by (simp add: add_paper_metadata_def no_metadata_def builder_defs Graph_def graph_add_def
        Let_def SCHEMA_def RDF_def)

subsection \<open>Anonymous authors\<close>

lemma add_author_Dict:
  "add_author (Dict d) g =
    (let author_name = (case map_of d ''name'' of None \<Rightarrow> ''Unknown Author'' | Some n \<Rightarrow> n);
         author_uri = create_uri ''https://authors.org/'' author_name;
         g' = graph_add (author_uri, SCHEMA ''name'', Literal author_name None)
               (graph_add (author_uri, FOAF ''name'', Literal author_name None)
                 (graph_add (author_uri, RDF ''type'', SCHEMA ''Person'') g))
     in (Inr author_uri,
         case get_truthy (map_of d ''affiliation'') of
           Some affiliation \<Rightarrow>
             (let affiliation_uri = create_uri ''https://organizations.org/'' affiliation
              in graph_add (author_uri, SCHEMA ''affiliation'', affiliation_uri)
                  (graph_add (affiliation_uri, SCHEMA ''name'', Literal affiliation None)
                    (graph_add (affiliation_uri, RDF ''type'', SCHEMA ''Organization'') g')))
         | None \<Rightarrow> g'))"
  by (simp add: add_author_def ret_def bnd_def do_add_def if_get_def Let_def
        split: option.splits)

lemma unknown_author_uri:
  "create_uri ''https://authors.org/'' ''Unknown Author'' =
   URIRef ''https://authors.org/Unknown_Author''"
  by (simp add: minter_defs)

text \<open>
  C10: an author given as a dictionary without a \<open>name\<close> key is minted the identifier
  \<open>https://authors.org/Unknown_Author\<close>. Two such authors added to the same store, whatever
  their other keys and whatever the store held before, get the same identifier; the
  identifier is a \<open>Person\<close> of the store, and the second author adds no \<open>Person\<close> to it
  (\<open>authors\<close> is the number of \<open>Person\<close> entities that \<open>get_statistics\<close> reports).
\<close>

theorem anonymous_authors_collapse:
  assumes "map_of d1 ''name'' = None" and "map_of d2 ''name'' = None"
    and "add_author (Dict d1) g = (r1, g1)" and "add_author (Dict d2) g1 = (r2, g2)"
  shows "r1 = Inr (URIRef ''https://authors.org/Unknown_Author'') \<and> r2 = r1 \<and>
         URIRef ''https://authors.org/Unknown_Author''
           \<in> set (subjects g1 (RDF ''type'') (SCHEMA ''Person'')) \<and>
         authors (get_statistics g2) = authors (get_statistics g1)"
proof -
  let ?anon = "URIRef ''https://authors.org/Unknown_Author''"
  let ?person = "(?anon, RDF ''type'', SCHEMA ''Person'')"
  have r1: "r1 = Inr ?anon" and r2: "r2 = Inr ?anon"
    using assms by (simp_all add: add_author_Dict unknown_author_uri Let_def)
  have in1: "?person \<in> set g1"
    using assms(1,3)
    by (auto simp: add_author_Dict unknown_author_uri Let_def graph_add_set
          split: option.splits)
  have neq: "snd (s, FOAF ''name'', x) \<noteq> (RDF ''type'', SCHEMA ''Person'')"
       "snd (s, SCHEMA ''name'', x) \<noteq> (RDF ''type'', SCHEMA ''Person'')"
       "snd (s, SCHEMA ''affiliation'', x) \<noteq> (RDF ''type'', SCHEMA ''Person'')"
       "snd (s, RDF ''type'', SCHEMA ''Organization'') \<noteq> (RDF ''type'', SCHEMA ''Person'')"
    for s x
    by (simp_all add: FOAF_def RDF_def SCHEMA_def)
  have "subjects g2 (RDF ''type'') (SCHEMA ''Person'') =
        subjects g1 (RDF ''type'') (SCHEMA ''Person'')"
    using assms(2,4) in1
    by (auto simp: add_author_Dict unknown_author_uri Let_def graph_add_absorb
          subjects_graph_add_other[OF neq(1)] subjects_graph_add_other[OF neq(2)]
          subjects_graph_add_other[OF neq(3)] subjects_graph_add_other[OF neq(4)]
          split: option.splits)
  then show ?thesis
    using r1 r2 in1 by (simp add: get_statistics_def subjects_graph_add_in)
qed

theorem anonymous_authors_collapse_witness:
  "fst (add_author (Dict [(''affiliation'', ''MIT'')]) Graph) =
     Inr (URIRef ''https://authors.org/Unknown_Author'') \<and>
   fst (add_author (Dict [(''email'', ''x@y.org'')])
          (snd (add_author (Dict [(''affiliation'', ''MIT'')]) Graph))) =
     Inr (URIRef ''https://authors.org/Unknown_Author'') \<and>
   authors (get_statistics
     (snd (add_author (Dict [(''email'', ''x@y.org'')])
             (snd (add_author (Dict [(''affiliation'', ''MIT'')]) Graph))))) =
   authors (get_statistics (snd (add_author (Dict [(''affiliation'', ''MIT'')]) Graph)))"
proof -
  let ?d1 = "[(''affiliation'', ''MIT'')]"
  let ?d2 = "[(''email'', ''x@y.org'')]"
  let ?s1 = "add_author (Dict ?d1) Graph"
  let ?s2 = "add_author (Dict ?d2) (snd ?s1)"
  have n1: "map_of ?d1 ''name'' = None" and n2: "map_of ?d2 ''name'' = None"
    by simp_all
  have e1: "?s1 = (fst ?s1, snd ?s1)" and e2: "?s2 = (fst ?s2, snd ?s2)"
    by simp_all
  from anonymous_authors_collapse [OF n1 n2 e1 e2] show ?thesis
    by simp
qed

section \<open>Properties of the analyzer and the miner\<close>

lemmas ns_defs = SCHEMA_def RDF_def RDFS_def SCIENTIFIC_def REPRO_def DCTERMS_def FOAF_def

lemma miner_raises_on_analysis:
  "find_research_opportunities g (analyze_graph_patterns py_float g nx) = Inl AttributeError"
  by (simp add: find_research_opportunities_def analyze_graph_patterns_def)

lemma usage_alpha_beta:
  "usage_counts alpha_beta_graph (SCIENTIFIC ''usesTool'') = [(''Alpha'', 1), (''Beta'', 1)]"
  by (simp add: usage_counts_def get_entity_name_def objects_def alpha_beta_graph_def ns_defs)

lemma combined_alpha_beta: "count_combined_tool_usage alpha_beta_graph ''Alpha'' ''Beta'' = 0"
  by code_simp

text \<open>
  Had the tool table been a \<open>Counter\<close> with the same entries, the miner would return the
  one tool combination the rule asks for.
\<close>

lemma miner_on_counter_table:
  "find_research_opportunities alpha_beta_graph
     ((analyze_graph_patterns (\<lambda>s. None) alpha_beta_graph nx_Graph)
        \<lparr>tool_usage := Counter [(''Alpha'', 1), (''Beta'', 1)]\<rparr>) =
   Inr [\<lparr> opp_type = ''tool_combination'',
          opp_description = ''Explore combining Alpha with Beta'',
          opp_tools = Some [''Alpha'', ''Beta''],
          opp_dataset = None,
          opp_current_avg_score = None,
          opp_rationale =
            ''These popular tools haven't been used together in existing research'' \<rparr>]"
  by code_simp

text \<open>
  C1: on the store of two papers, one using the tool Alpha and the other the tool Beta,
  the analyzer counts both tools once, so both are among the ten most used, and no paper
  uses both. The miner does not return the tool combination: the analyzer's usage table is
  a \<open>defaultdict\<close>, which has no \<open>most_common\<close>, and the miner raises \<open>AttributeError\<close>.
\<close>

theorem miner_raises_on_alpha_beta:
  "tool_usage (analyze_graph_patterns py_float alpha_beta_graph nx) =
     DefaultDict [(''Alpha'', 1), (''Beta'', 1)] \<and>
   count_combined_tool_usage alpha_beta_graph ''Alpha'' ''Beta'' = 0 \<and>
   find_research_opportunities alpha_beta_graph
     (analyze_graph_patterns py_float alpha_beta_graph nx) = Inl AttributeError"
  by (simp add: analyze_graph_patterns_def usage_alpha_beta combined_alpha_beta
        find_research_opportunities_def)

text \<open>
  C3: on the empty store the analyzer returns its default analysis, with the empty
  centrality list, and the synthesizer's deterministic path returns the empty list for
  the empty opportunity list; but the miner, given the analysis of the empty store, raises
  \<open>AttributeError\<close> instead of returning the empty opportunity list.
\<close>

theorem empty_graph_miner_raises:
  "analyze_graph_patterns py_float Graph (build_networkx_graph Graph nx_Graph) =
     empty_analysis \<and>
   highly_connected_entities
     (analyze_graph_patterns py_float Graph (build_networkx_graph Graph nx_Graph)) = [] \<and>
   find_research_opportunities Graph
     (analyze_graph_patterns py_float Graph (build_networkx_graph Graph nx_Graph)) =
     Inl AttributeError \<and>
   generate_rule_based_hypotheses
     (analyze_graph_patterns py_float Graph (build_networkx_graph Graph nx_Graph)) [] n =
     Inr []"
  by (simp add: find_research_opportunities_def analyze_graph_patterns_def Graph_def
        build_networkx_graph_def nx_Graph_def usage_counts_def
        generate_rule_based_hypotheses_def slice_to_def empty_analysis_def)

text \<open>Every opportunity the miner returns carries the payload of its kind.\<close>

lemma miner_complete:
  assumes "find_research_opportunities g analysis = Inr opps"
  shows "list_all complete_opportunity opps"
proof (cases "tool_usage analysis")
  case (DefaultDict kvs)
  with assms show ?thesis
    by (simp add: find_research_opportunities_def)
next
  case (Counter kvs)
  with assms show ?thesis
    by (auto simp: find_research_opportunities_def Let_def list_all_iff
          complete_opportunity_def split: if_splits)
qed

section \<open>Properties of the synthesizer\<close>

subsection \<open>Deterministic path\<close>

lemma rule_based_hypothesis_complete:
  assumes "complete_opportunity opp"
  shows "\<exists>h. rule_based_hypothesis opp = Inr h \<and> map fst h = required_fields"
proof (cases "opp_type opp = ''tool_combination''")
  case True
  with assms obtain ts where ts: "opp_tools opp = Some ts" "2 \<le> length ts"
    by (cases "opp_tools opp") (simp_all add: complete_opportunity_def)
  then obtain t0 t1 rest where "ts = t0 # t1 # rest"
    by (cases ts; cases "tl ts") auto
  with True ts show ?thesis
    by (simp add: rule_based_hypothesis_def required_fields_def)
next
  case False
  show ?thesis
  proof (cases "opp_type opp = ''dataset_reuse''")
    case True
    with assms False obtain d where "opp_dataset opp = Some d"
      by (cases "opp_dataset opp") (simp_all add: complete_opportunity_def)
    with True False show ?thesis
      by (simp add: rule_based_hypothesis_def required_fields_def)
  next
    case other: False
    with False show ?thesis
      by (simp add: rule_based_hypothesis_def required_fields_def)
  qed
qed

lemma rule_based_loop_complete:
  "list_all complete_opportunity opps \<Longrightarrow>
   \<exists>hs. rule_based_loop opps = Inr hs \<and> length hs = length opps \<and>
        list_all (\<lambda>h. map fst h = required_fields) hs"
proof (induction opps)
  case Nil
  then show ?case by simp
next
  case (Cons opp opps)
  from Cons.prems have "complete_opportunity opp" and rest: "list_all complete_opportunity opps"
    by simp_all
  then obtain h where h: "rule_based_hypothesis opp = Inr h" "map fst h = required_fields"
    using rule_based_hypothesis_complete by blast
  from Cons.IH[OF rest] obtain hs where hs: "rule_based_loop opps = Inr hs"
      "length hs = length opps" "list_all (\<lambda>h. map fst h = required_fields) hs"
    by blast
  show ?case
    by (simp add: h hs)
qed

lemma length_slice_to: "0 \<le> n \<Longrightarrow> length (slice_to n xs) = min (nat n) (length xs)"
  by (simp add: slice_to_def)

text \<open>
  C2, as stated, fails: with no opportunity and five hypotheses requested, the
  deterministic path returns the empty list, not five hypotheses. Nothing is padded.
\<close>

theorem rule_based_no_padding_counterexample:
  "generate_rule_based_hypotheses empty_analysis [] 5 = Inr []"
  by (simp add: generate_rule_based_hypotheses_def slice_to_def)

text \<open>
  C2, amended: for every analysis, every requested count \<open>n\<close> and every opportunity list
  whose first \<open>n\<close> opportunities carry the payload of their kind (as the miner's do), the
  deterministic path returns one hypothesis per opportunity of \<open>opportunities[:n]\<close>, that
  is \<open>min(n, len(opportunities))\<close> hypotheses when \<open>n\<close> is not negative, and each has
  exactly the seven required fields.
\<close>

theorem rule_based_one_hypothesis_per_opportunity:
  assumes "list_all complete_opportunity (slice_to n opportunities)"
  shows "\<exists>hs. generate_rule_based_hypotheses analysis opportunities n = Inr hs \<and>
           length hs = length (slice_to n opportunities) \<and>
           (0 \<le> n \<longrightarrow> length hs = min (nat n) (length opportunities)) \<and>
           list_all (\<lambda>h. map fst h = required_fields) hs"
proof -
  from rule_based_loop_complete[OF assms] obtain hs where
    hs: "rule_based_loop (slice_to n opportunities) = Inr hs"
        "length hs = length (slice_to n opportunities)"
        "list_all (\<lambda>h. map fst h = required_fields) hs"
    by blast
  then show ?thesis
    by (simp add: generate_rule_based_hypotheses_def length_slice_to)
qed

theorem rule_based_one_hypothesis_per_opportunity_witness:
  "\<exists>hs. generate_rule_based_hypotheses empty_analysis
          [\<lparr> opp_type = ''tool_combination'',
             opp_description = ''Explore combining Alpha with Beta'',
             opp_tools = Some [''Alpha'', ''Beta''],
             opp_dataset = None,
             opp_current_avg_score = None,
             opp_rationale = ''Unused pair'' \<rparr>,
           \<lparr> opp_type = ''reproducibility_improvement'',
             opp_description = ''Develop better reproducibility practices'',
             opp_tools = None,
             opp_dataset = None,
             opp_current_avg_score = Some (4 / 10),
             opp_rationale = ''Current research shows low reproducibility scores'' \<rparr>] 5 =
          Inr hs \<and>
        length hs = 2 \<and> list_all (\<lambda>h. map fst h = required_fields) hs"
proof -
  let ?opps = "[\<lparr> opp_type = ''tool_combination'',
             opp_description = ''Explore combining Alpha with Beta'',
             opp_tools = Some [''Alpha'', ''Beta''],
             opp_dataset = None,
             opp_current_avg_score = None,
             opp_rationale = ''Unused pair'' \<rparr>,
           \<lparr> opp_type = ''reproducibility_improvement'',
             opp_description = ''Develop better reproducibility practices'',
             opp_tools = None,
             opp_dataset = None,
             opp_current_avg_score = Some (4 / 10),
             opp_rationale = ''Current research shows low reproducibility scores'' \<rparr>]"
  have complete: "list_all complete_opportunity (slice_to 5 ?opps)"
    by (simp add: slice_to_def complete_opportunity_def)
  from rule_based_one_hypothesis_per_opportunity [OF complete, of empty_analysis]
  show ?thesis
    by (simp add: slice_to_def numeral_2_eq_2)
qed

subsection \<open>Backend path\<close>

lemma try_except_same: "try_except r r = r"
  by (cases r) (simp_all add: try_except_def)

text \<open>What makes a vendor method raise: the call, the parser, or a parsed value without slicing.\<close>

lemma generate_with_raises:
  "llm_call ext v model key context = Inl e \<Longrightarrow>
     generate_with ext v model key context n = Inl e"
  "llm_call ext v model key context = Inr response \<Longrightarrow> json_loads ext response = Inl e \<Longrightarrow>
     generate_with ext v model key context n = Inl e"
  "llm_call ext v model key context = Inr response \<Longrightarrow>
   json_loads ext response = Inr (PDict d) \<Longrightarrow>
     generate_with ext v model key context n = Inl TypeError"
  by (simp_all add: generate_with_def)

text \<open>
  C4: \<open>generate_hypotheses_with_llm\<close> returns what the deterministic path returns when no
  API key is configured (absent or empty), when the model name contains none of \<open>gpt\<close>,
  \<open>claude\<close>, \<open>gemini\<close>, and when the vendor method that the model name selects raises an
  exception \<open>e\<close> that is an \<open>Exception\<close>, be it from the call or from parsing or slicing
  the response. So an \<open>Exception\<close> that reaches the caller is one the deterministic path
  itself raises, never one of the backend.
\<close>

theorem llm_failure_falls_back:
  "(get_truthy api_key = None \<longrightarrow>
      generate_hypotheses_with_llm ext api_key model analysis opportunities n focus_area =
        as_value (generate_rule_based_hypotheses analysis opportunities n)) \<and>
   (\<not> str_in ''gpt'' (lower model) \<and> \<not> str_in ''claude'' (lower model) \<and>
    \<not> str_in ''gemini'' (lower model) \<longrightarrow>
      generate_hypotheses_with_llm ext api_key model analysis opportunities n focus_area =
        as_value (generate_rule_based_hypotheses analysis opportunities n)) \<and>
   (\<forall>key e. get_truthy api_key = Some key \<and> isinstance_Exception e \<and>
      ((str_in ''gpt'' (lower model) \<and>
          generate_with_openai ext model key
            (prepare_llm_context ext analysis opportunities focus_area) n = Inl e) \<or>
       (\<not> str_in ''gpt'' (lower model) \<and> str_in ''claude'' (lower model) \<and>
          generate_with_anthropic ext key
            (prepare_llm_context ext analysis opportunities focus_area) n = Inl e) \<or>
       (\<not> str_in ''gpt'' (lower model) \<and> \<not> str_in ''claude'' (lower model) \<and>
        str_in ''gemini'' (lower model) \<and>
          generate_with_gemini ext key
            (prepare_llm_context ext analysis opportunities focus_area) n = Inl e)) \<longrightarrow>
      generate_hypotheses_with_llm ext api_key model analysis opportunities n focus_area =
        as_value (generate_rule_based_hypotheses analysis opportunities n)) \<and>
   (\<forall>e. generate_hypotheses_with_llm ext api_key model analysis opportunities n focus_area =
          Inl e \<and> isinstance_Exception e \<longrightarrow>
        as_value (generate_rule_based_hypotheses analysis opportunities n) = Inl e)"
proof -
  have surfaced:
    "as_value (generate_rule_based_hypotheses analysis opportunities n) = Inl e"
    if "generate_hypotheses_with_llm ext api_key model analysis opportunities n focus_area =
          Inl e" and "isinstance_Exception e" for e
    using that
    by (auto simp: generate_hypotheses_with_llm_def Let_def try_except_def
          split: option.splits sum.splits if_splits)
  show ?thesis
    using surfaced
    by (auto simp: generate_hypotheses_with_llm_def Let_def try_except_same try_except_def
          split: option.splits)
qed

theorem llm_failure_falls_back_witness:
  "generate_hypotheses_with_llm unreachable_backend None ''gpt-4'' empty_analysis [] 3 None =
     Inr (PList []) \<and>
   generate_hypotheses_with_llm unreachable_backend (Some ''sk-test'') ''llama-3''
     empty_analysis [] 3 None = Inr (PList []) \<and>
   generate_hypotheses_with_llm unreachable_backend (Some ''sk-test'') ''gpt-4''
     empty_analysis [] 3 None = Inr (PList []) \<and>
   generate_hypotheses_with_llm garbled_backend (Some ''sk-test'') ''Claude-3''
     empty_analysis [] 3 None = Inr (PList []) \<and>
   generate_hypotheses_with_llm wrong_shape_backend (Some ''sk-test'') ''gemini-pro''
     empty_analysis [] 3 None = Inr (PList [])"
proof -
  have fallback: "as_value (generate_rule_based_hypotheses empty_analysis [] 3) = Inr (PList [])"
    by (simp add: as_value_def generate_rule_based_hypotheses_def slice_to_def)
  have key: "get_truthy (Some ''sk-test'') = Some ''sk-test''"
    and no_key: "get_truthy (None :: string option) = None"
    by (simp_all add: get_truthy_def)
  have llama: "\<not> str_in ''gpt'' (lower ''llama-3'')" "\<not> str_in ''claude'' (lower ''llama-3'')"
      "\<not> str_in ''gemini'' (lower ''llama-3'')"
    by code_simp+
  have gpt: "str_in ''gpt'' (lower ''gpt-4'')"
    by code_simp
  have claude: "\<not> str_in ''gpt'' (lower ''Claude-3'')" "str_in ''claude'' (lower ''Claude-3'')"
    by code_simp+
  have gemini: "\<not> str_in ''gpt'' (lower ''gemini-pro'')"
      "\<not> str_in ''claude'' (lower ''gemini-pro'')" "str_in ''gemini'' (lower ''gemini-pro'')"
    by code_simp+
  have timeout: "generate_with_openai unreachable_backend ''gpt-4'' ''sk-test'' c 3 =
      Inl (BackendError ''timeout'')" for c
    by (simp add: generate_with_openai_def generate_with_def unreachable_backend_def)
  have not_json: "generate_with_anthropic garbled_backend ''sk-test'' c 3 = Inl JSONDecodeError"
    for c
    by (simp add: generate_with_anthropic_def generate_with_def garbled_backend_def)
  have not_array: "generate_with_gemini wrong_shape_backend ''sk-test'' c 3 = Inl TypeError"
    for c
    by (simp add: generate_with_gemini_def generate_with_def wrong_shape_backend_def)
  have caught: "isinstance_Exception (BackendError ''timeout'')"
      "isinstance_Exception JSONDecodeError" "isinstance_Exception TypeError"
    by simp_all
  have 1: "generate_hypotheses_with_llm unreachable_backend None ''gpt-4'' empty_analysis [] 3
      None = Inr (PList [])"
    using llm_failure_falls_back [of None unreachable_backend "''gpt-4''" empty_analysis "[]" 3
        None] no_key fallback
    by simp
  have 2: "generate_hypotheses_with_llm unreachable_backend (Some ''sk-test'') ''llama-3''
      empty_analysis [] 3 None = Inr (PList [])"
    using llm_failure_falls_back [of "Some ''sk-test''" unreachable_backend "''llama-3''"
        empty_analysis "[]" 3 None] llama fallback
    by simp
  have 3: "generate_hypotheses_with_llm unreachable_backend (Some ''sk-test'') ''gpt-4''
      empty_analysis [] 3 None = Inr (PList [])"
    using llm_failure_falls_back [of "Some ''sk-test''" unreachable_backend "''gpt-4''"
        empty_analysis "[]" 3 None] key gpt timeout caught(1) fallback
    by metis
  have 4: "generate_hypotheses_with_llm garbled_backend (Some ''sk-test'') ''Claude-3''
      empty_analysis [] 3 None = Inr (PList [])"
    using llm_failure_falls_back [of "Some ''sk-test''" garbled_backend "''Claude-3''"
        empty_analysis "[]" 3 None] key claude not_json caught(2) fallback
    by metis
  have 5: "generate_hypotheses_with_llm wrong_shape_backend (Some ''sk-test'') ''gemini-pro''
      empty_analysis [] 3 None = Inr (PList [])"
    using llm_failure_falls_back [of "Some ''sk-test''" wrong_shape_backend "''gemini-pro''"
        empty_analysis "[]" 3 None] key gemini not_array caught(3) fallback
    by metis
  from 1 2 3 4 5 show ?thesis
    by simp
qed

section \<open>Properties of the report assembler\<close>

text \<open>
  C9: \<open>generate_research_report\<close> produces no report, and so no \<open>avg_novelty_score\<close>, on
  any graph file, backend and requested count: where the file does not parse the
  parser's exception is raised, and where it parses the miner raises \<open>AttributeError\<close> on
  the analyzer's tables before a hypothesis is generated or the summary computed.
\<close>

theorem generate_research_report_raises:
  "generate_research_report ext py_float parse_graph api_key model assemble
       graph_file n focus_area =
     (case parse_graph graph_file of
        Inl e \<Rightarrow> Inl e
      | Inr statements \<Rightarrow> Inl AttributeError)"
  by (simp add: generate_research_report_def load_knowledge_graph_def Let_def
        find_research_opportunities_def analyze_graph_patterns_def split: sum.splits)

end
